theory Spec2Isabelle
  imports Main "HOL-Library.AList"
begin

section \<open>Python values\<close>

text \<open>
  A Python \<open>str\<close> is a sequence of Unicode code points, so it is a list of naturals here
  (the em-dash of \<open>normalize_name\<close> is the code point 8212, outside any 8-bit character).
  \<open>ustr\<close> reads an ASCII literal.
\<close>

type_synonym pystr = "nat list"

definition ustr :: "string \<Rightarrow> pystr" where
  "ustr cs = map of_char cs"

text \<open>
  A Python \<open>float\<close>: a finite value \<open>m * 2 ^ e\<close>, the two infinities, or not-a-number.
  The program only tests floats for truth, truncates them with \<open>int()\<close> and builds them
  with \<open>float()\<close>; it never does arithmetic on them.
\<close>

datatype pyfloat = Finite int int | PosInf | NegInf | NaN

text \<open>
  What \<open>plistlib\<close> yields for a decoded document: a tree of dicts (string keys, in
  insertion order), lists, strings, integers, reals, booleans, byte blobs, dates and UIDs.
  \<open>PNone\<close> is Python's \<open>None\<close>, the result of \<open>dict.get\<close> on an absent key.
\<close>

datatype pval =
    PNone
  | PBool bool
  | PInt int
  | PFloat pyfloat
  | PStr pystr
  | PBytes "nat list"
  | PDate pystr
  | PUid int
  | PList "pval list"
  | PDict "(pystr \<times> pval) list"

type_synonym pydict = "(pystr \<times> pval) list"

datatype error = AttributeError | TypeError | ValueError | OverflowError | PlistError

text \<open>Truth value of an object, as \<open>or\<close>, \<open>and\<close>, \<open>not\<close> and \<open>if\<close> test it.\<close>

fun truthy :: "pval \<Rightarrow> bool" where
  "truthy PNone = False"
| "truthy (PBool b) = b"
| "truthy (PInt i) = (i \<noteq> 0)"
| "truthy (PFloat (Finite m e)) = (m \<noteq> 0)"
| "truthy (PFloat f) = True"
| "truthy (PStr s) = (s \<noteq> [])"
| "truthy (PBytes b) = (b \<noteq> [])"
| "truthy (PDate d) = True"
| "truthy (PUid u) = True"
| "truthy (PList xs) = (xs \<noteq> [])"
| "truthy (PDict d) = (d \<noteq> [])"

text \<open>\<open>a or b\<close> on values that are already computed.\<close>

definition por :: "pval \<Rightarrow> pval \<Rightarrow> pval" where
  "por a b = (if truthy a then a else b)"

text \<open>\<open>d.get(k)\<close> on a dict: the value, or \<open>None\<close>.\<close>

definition dget :: "pydict \<Rightarrow> pystr \<Rightarrow> pval" where
  "dget d k = (case map_of d k of Some v \<Rightarrow> v | None \<Rightarrow> PNone)"

text \<open>\<open>k in d\<close> on a dict.\<close>

definition has_key :: "pydict \<Rightarrow> pystr \<Rightarrow> bool" where
  "has_key d k = (map_of d k \<noteq> None)"

text \<open>\<open>sub in s\<close> on strings: \<open>sub\<close> occurs in \<open>s\<close> as a contiguous run.\<close>

fun contains :: "pystr \<Rightarrow> pystr \<Rightarrow> bool" where
  "contains sub [] = (sub = [])"
| "contains sub (c # cs) = (take (length sub) (c # cs) = sub \<or> contains sub cs)"

text \<open>\<open>s.startswith(p)\<close>.\<close>

definition startswith :: "pystr \<Rightarrow> pystr \<Rightarrow> bool" where
  "startswith s p = (take (length p) s = p)"

text \<open>
  The built-ins whose full definition is the Unicode database, the float printer or an
  external library are taken as parameters: \<open>str.lower\<close>, \<open>str()\<close> of a value that is
  not a string, \<open>int()\<close> of a string and of a byte string (\<open>None\<close> where it raises), and
  \<open>plistlib.loads\<close>. Theorems hold for every such record.
\<close>

record builtins =
  str_lower :: "pystr \<Rightarrow> pystr"
  py_str :: "pval \<Rightarrow> pystr"
  int_of_str :: "pystr \<Rightarrow> int option"
  int_of_bytes :: "nat list \<Rightarrow> int option"
  plist_loads :: "nat list \<Rightarrow> error + pval"

text \<open>\<open>int(f)\<close> of a float: truncation towards zero; it raises on infinities and NaN.\<close>

fun int_of_float :: "pyfloat \<Rightarrow> int option" where
  "int_of_float (Finite m e) =
     (if 0 \<le> e then Some (m * 2 ^ nat e)
      else Some (sgn m * (\<bar>m\<bar> div 2 ^ nat (- e))))"
| "int_of_float f = None"

text \<open>
  \<open>float(i)\<close> of an integer: the nearest double, ties to even; it raises
  \<open>OverflowError\<close> when the rounded value does not fit a double.
\<close>

fun bit_length :: "nat \<Rightarrow> nat" where
  "bit_length n = (if n = 0 then 0 else Suc (bit_length (n div 2)))"

definition float_of_int :: "int \<Rightarrow> error + pyfloat" where
  "float_of_int i =
     (let a = nat \<bar>i\<bar>; n = bit_length a in
      if n \<le> 53 then Inr (Finite i 0)
      else
        let e = n - 53; q = a div 2 ^ e; r = a mod 2 ^ e; h = 2 ^ (e - 1);
            q' = (if h < r \<or> (r = h \<and> odd q) then q + 1 else q)
        in if 2 ^ 1024 \<le> q' * 2 ^ e then Inl OverflowError
           else Inr (Finite (sgn i * int q') (int e)))"

section \<open>The normalized model (models.py)\<close>

record KeyRange =
  low :: int
  high :: int

record Plugin =
  plugin_name :: pystr
  manufacturer :: "pystr option"
  plugin_kind :: "pystr option"
  plugin_identifier :: "pystr option"
  params :: pydict

record ChannelStrip =
  strip_name :: pystr
  kind :: pystr
  midi_channel :: "int option"
  key_range :: "KeyRange option"
  transpose :: int
  plugins :: "Plugin list"
  strip_notes :: pydict

record Patch =
  patch_name :: pystr
  channel_strips :: "ChannelStrip list"
  patch_attributes :: pydict

record PSet =
  set_name :: pystr
  patches :: "Patch list"
  set_attributes :: pydict

record Concert =
  concert_name :: pystr
  sets :: "PSet list"
  concert_attributes :: pydict

definition NOTE_NAMES :: "pystr list" where
  "NOTE_NAMES = map ustr [''C'', ''C#'', ''D'', ''D#'', ''E'', ''F'', ''F#'', ''G'', ''G#'',
     ''A'', ''A#'', ''B'']"

text \<open>Decimal rendering of an integer, as an f-string does it.\<close>

fun digits :: "nat \<Rightarrow> pystr" where
  "digits n = (if n < 10 then [48 + n] else digits (n div 10) @ [48 + n mod 10])"

definition str_of_int :: "int \<Rightarrow> pystr" where
  "str_of_int i = (if i < 0 then 45 # digits (nat (- i)) else digits (nat i))"

definition midi_to_note :: "int option \<Rightarrow> pystr" where
  "midi_to_note n =
     (case n of
        None \<Rightarrow> []
      | Some v \<Rightarrow>
          let m = max 0 (min 127 v);
              name = NOTE_NAMES ! nat (m mod 12);
              octave = m div 12 - 1
          in name @ str_of_int octave)"

section \<open>The session mapper (emit\_camelot.py)\<close>

record KeyRangeDict =
  kr_low :: int
  kr_high :: int
  lowName :: pystr
  highName :: pystr

datatype LayerSource =
    PluginSource pystr "pystr option" "pystr option" "pystr option"
  | StripSource pystr pystr

record Layer =
  layer_name :: pystr
  keyRange :: "KeyRangeDict option"
  layer_transpose :: int
  layer_source :: LayerSource
  midiChannel :: "int option"
  layer_metadata :: pydict

record Scene =
  scene_name :: pystr
  layers :: "Layer list"
  scene_metadata :: pydict

record Song =
  song_name :: pystr
  scenes :: "Scene list"
  song_metadata :: pydict

record SessionSource =
  source_type :: pystr
  source_path :: pystr
  extractedAt :: pystr

record Session =
  version :: int
  session_name :: pystr
  createdAt :: pystr
  source :: SessionSource
  songs :: "Song list"
  metadata :: pydict

definition to_dict :: "KeyRange \<Rightarrow> KeyRangeDict" where
  "to_dict kr = \<lparr>kr_low = low kr, kr_high = high kr,
     lowName = midi_to_note (Some (low kr)), highName = midi_to_note (Some (high kr))\<rparr>"

definition plugin_source :: "ChannelStrip \<Rightarrow> LayerSource" where
  "plugin_source cs =
     (case plugins cs of
        p # ps \<Rightarrow> PluginSource (plugin_name p) (manufacturer p) (plugin_kind p) (plugin_identifier p)
      | [] \<Rightarrow> StripSource (kind cs) (strip_name cs))"

text \<open>A \<open>KeyRange\<close> object is always true, so \<open>if cs.key_range\<close> tests it against \<open>None\<close>.\<close>

definition layer_from_strip :: "ChannelStrip \<Rightarrow> Layer" where
  "layer_from_strip cs =
     \<lparr>layer_name = strip_name cs,
      keyRange = (case key_range cs of Some kr \<Rightarrow> Some (to_dict kr) | None \<Rightarrow> None),
      layer_transpose = transpose cs,
      layer_source = plugin_source cs,
      midiChannel = midi_channel cs,
      layer_metadata = strip_notes cs\<rparr>"

definition scene_from_patch :: "Patch \<Rightarrow> bool \<Rightarrow> Scene" where
  "scene_from_patch patch include_bpm =
     (let meta = patch_attributes patch;
          meta' = (if \<not> include_bpm \<and> has_key meta (ustr ''bpm'')
                   then filter (\<lambda>(k, v). k \<noteq> ustr ''bpm'') meta else meta)
      in \<lparr>scene_name = patch_name patch,
          layers = map layer_from_strip
                     (filter (\<lambda>cs. kind cs = ustr ''instrument'') (channel_strips patch)),
          scene_metadata = meta'\<rparr>)"

text \<open>The song of one patch in flattened mode (the body of the inner loop).\<close>

definition flat_song :: "PSet \<Rightarrow> Patch \<Rightarrow> Song" where
  "flat_song s p =
     (let meta = [(ustr ''_fromSet'', PStr (set_name s))];
          meta' = (if dget (patch_attributes p) (ustr ''bpm'') \<noteq> PNone
                   then AList.update (ustr ''bpm'') (dget (patch_attributes p) (ustr ''bpm'')) meta
                   else meta)
      in \<lparr>song_name = patch_name p, scenes = [scene_from_patch p True], song_metadata = meta'\<rparr>)"

text \<open>The first \<open>bpm\<close> among a set's patches that is not \<open>None\<close> (the loop with \<open>break\<close>).\<close>

fun first_bpm :: "Patch list \<Rightarrow> pval" where
  "first_bpm [] = PNone"
| "first_bpm (p # ps) =
     (if dget (patch_attributes p) (ustr ''bpm'') \<noteq> PNone
      then dget (patch_attributes p) (ustr ''bpm'') else first_bpm ps)"

text \<open>The song of one set in grouped mode (the body of the outer loop).\<close>

definition grouped_song :: "PSet \<Rightarrow> Song" where
  "grouped_song s =
     (let meta = set_attributes s;
          bpm = first_bpm (patches s);
          meta' = (if bpm \<noteq> PNone then AList.update (ustr ''bpm'') bpm meta else meta)
      in \<lparr>song_name = set_name s,
          scenes = map (\<lambda>p. scene_from_patch p False) (patches s),
          song_metadata = meta'\<rparr>)"

text \<open>
  \<open>build_camelot_session\<close> reads the clock once (\<open>datetime.now().isoformat()\<close>); the
  reading is the argument \<open>now_iso\<close>.
\<close>

definition build_camelot_session :: "pystr \<Rightarrow> Concert \<Rightarrow> bool \<Rightarrow> pystr \<Rightarrow> Session" where
  "build_camelot_session now_iso concert flatten_sets src_path =
     \<lparr>version = 1,
      session_name = concert_name concert,
      createdAt = now_iso,
      source = \<lparr>source_type = ustr ''mainstage'', source_path = src_path,
                 extractedAt = now_iso\<rparr>,
      songs = (if flatten_sets
               then concat (map (\<lambda>s. map (flat_song s) (patches s)) (sets concert))
               else map grouped_song (sets concert)),
      metadata = concert_attributes concert\<rparr>"

section \<open>Name normalization (parser\_mainstage.py)\<close>

text \<open>The code points for which \<open>str.isspace\<close> holds; \<open>split()\<close> and \<open>strip()\<close> use them.\<close>

definition isspace :: "nat \<Rightarrow> bool" where
  "isspace c = ((9 \<le> c \<and> c \<le> 13) \<or> (28 \<le> c \<and> c \<le> 32) \<or> c = 133 \<or> c = 160
     \<or> c = 5760 \<or> (8192 \<le> c \<and> c \<le> 8202) \<or> c = 8232 \<or> c = 8233 \<or> c = 8239
     \<or> c = 8287 \<or> c = 12288)"

text \<open>
  \<open>s.split()\<close>: the maximal runs of non-whitespace, scanned left to right with the
  run read so far in \<open>cur\<close>.
\<close>

fun split_from :: "pystr \<Rightarrow> pystr \<Rightarrow> pystr list" where
  "split_from cur [] = (if cur = [] then [] else [cur])"
| "split_from cur (c # cs) =
     (if isspace c then (if cur = [] then split_from [] cs else cur # split_from [] cs)
      else split_from (cur @ [c]) cs)"

definition split :: "pystr \<Rightarrow> pystr list" where
  "split s = split_from [] s"

text \<open>\<open>sep.join(xs)\<close>.\<close>

fun join :: "pystr \<Rightarrow> pystr list \<Rightarrow> pystr" where
  "join sep [] = []"
| "join sep [x] = x"
| "join sep (x # y # ys) = x @ sep @ join sep (y # ys)"

text \<open>\<open>s.strip()\<close>.\<close>

definition strip :: "pystr \<Rightarrow> pystr" where
  "strip s = rev (dropWhile isspace (rev (dropWhile isspace s)))"

text \<open>
  \<open>s.replace(old, new)\<close>: the occurrences of \<open>old\<close> are found left to right and do not
  overlap; an empty \<open>old\<close> matches before every character and at the end.
\<close>

fun replace :: "pystr \<Rightarrow> pystr \<Rightarrow> pystr \<Rightarrow> pystr" where
  "replace old new [] = (if old = [] then new else [])"
| "replace old new (c # cs) =
     (if old = [] then new @ c # replace old new cs
      else if take (length old) (c # cs) = old
        then new @ replace old new (drop (length old) (c # cs))
        else c # replace old new cs)"

definition em_dash :: pystr where
  "em_dash = [32, 8212, 32]"

definition normalize_name :: "pval \<Rightarrow> pystr" where
  "normalize_name name =
     (case name of
        PStr n \<Rightarrow>
          let s = replace (ustr ''/'') em_dash (replace [92] em_dash n);
              s = replace [32, 32, 8212, 32] em_dash (replace [32, 8212, 32, 32] em_dash s);
              s = join (ustr '' '') (split s)
          in strip s
      | _ \<Rightarrow> [])"

section \<open>The heuristic tree walker (parser\_mainstage.py)\<close>

text \<open>
  A function that can raise returns \<open>error + 'a\<close>. Only a dict has \<open>get\<close>, \<open>items\<close> and
  \<open>values\<close>: on any other value the attribute lookup raises \<open>AttributeError\<close>. The
  \<open>verbose\<close> flag is passed along in the source and never read; it is left out.
\<close>

definition ebind :: "error + 'a \<Rightarrow> ('a \<Rightarrow> error + 'b) \<Rightarrow> error + 'b" where
  "ebind m f = (case m of Inl e \<Rightarrow> Inl e | Inr x \<Rightarrow> f x)"

text \<open>A loop that calls \<open>f\<close> on each element and stops at the first raise.\<close>

fun emap :: "('a \<Rightarrow> error + 'b) \<Rightarrow> 'a list \<Rightarrow> error + 'b list" where
  "emap f [] = Inr []"
| "emap f (x # xs) =
     (case f x of Inl e \<Rightarrow> Inl e
      | Inr y \<Rightarrow> (case emap f xs of Inl e \<Rightarrow> Inl e | Inr ys \<Rightarrow> Inr (y # ys)))"

text \<open>\<open>for x in v\<close>: the elements a loop visits, or \<open>TypeError\<close> when \<open>v\<close> is not iterable.\<close>

fun py_iter :: "pval \<Rightarrow> error + pval list" where
  "py_iter (PList xs) = Inr xs"
| "py_iter (PStr s) = Inr (map (\<lambda>c. PStr [c]) s)"
| "py_iter (PBytes b) = Inr (map (\<lambda>c. PInt (int c)) b)"
| "py_iter (PDict d) = Inr (map (\<lambda>kv. PStr (fst kv)) d)"
| "py_iter v = Inl TypeError"

fun is_list :: "pval \<Rightarrow> bool" where
  "is_list (PList xs) = True"
| "is_list v = False"

fun is_dict :: "pval \<Rightarrow> bool" where
  "is_dict (PDict d) = True"
| "is_dict v = False"

text \<open>\<open>coerce_int\<close>: \<open>int(v)\<close> with every exception turned into \<open>None\<close>.\<close>

fun coerce_int :: "builtins \<Rightarrow> pval \<Rightarrow> int option" where
  "coerce_int B PNone = None"
| "coerce_int B (PInt i) = Some i"
| "coerce_int B (PBool b) = Some (if b then 1 else 0)"
| "coerce_int B (PFloat f) = int_of_float f"
| "coerce_int B (PStr s) = int_of_str B s"
| "coerce_int B (PBytes b) = int_of_bytes B b"
| "coerce_int B (PUid u) = Some u"
| "coerce_int B v = None"

text \<open>\<open>_first_str\<close>: the stripped value of the first key holding a non-blank string.\<close>

fun first_str :: "pydict \<Rightarrow> pystr list \<Rightarrow> pystr option" where
  "first_str d [] = None"
| "first_str d (k # ks) =
     (case dget d k of
        PStr v \<Rightarrow> if strip v \<noteq> [] then Some (strip v) else first_str d ks
      | _ \<Rightarrow> first_str d ks)"

definition node_class :: "builtins \<Rightarrow> pval \<Rightarrow> error + pystr" where
  "node_class B node =
     (case node of
        PDict d \<Rightarrow>
          (case por (dget d (ustr ''class'')) (por (dget d (ustr ''_class''))
                  (por (dget d (ustr ''isa'')) (por (dget d (ustr ''type'')) (PStr [])))) of
             PStr s \<Rightarrow> Inr s
           | v \<Rightarrow> Inr (py_str B v))
      | _ \<Rightarrow> Inl AttributeError)"

text \<open>\<open>node_name\<close> returns a string or \<open>None\<close>.\<close>

definition node_name :: "pval \<Rightarrow> error + pval" where
  "node_name node =
     (case node of
        PDict d \<Rightarrow>
          (case por (dget d (ustr ''name'')) (por (dget d (ustr ''Name''))
                  (por (dget d (ustr ''title'')) (dget d (ustr ''Title'')))) of
             PStr s \<Rightarrow> Inr (PStr s)
           | v \<Rightarrow> Inr PNone)
      | _ \<Rightarrow> Inl AttributeError)"

text \<open>
  \<open>classify_node\<close>. Both \<open>cls\<close> and \<open>name\<close> are computed before the tests: a name that
  is neither text nor bytes has no \<open>lower\<close>; a bytes name has one, and then
  \<open>name.startswith("set ")\<close> raises \<open>TypeError\<close> when the \<open>or\<close> reaches it.
\<close>

definition classify_node :: "builtins \<Rightarrow> pval \<Rightarrow> error + pystr" where
  "classify_node B node =
     ebind (node_class B node) (\<lambda>c.
       let cls = str_lower B c in
       case node of
         PDict d \<Rightarrow>
           let rest =
                 (if contains (ustr ''patch'') cls then Inr (ustr ''patch'')
                  else if is_list (por (dget d (ustr ''children'')) (dget d (ustr ''_children'')))
                    then Inr (ustr ''set'')
                    else Inr (ustr ''unknown''))
           in (case por (dget d (ustr ''name'')) (por (dget d (ustr ''Name'')) (PStr [])) of
                 PStr n \<Rightarrow>
                   if contains (ustr ''set'') cls \<or> startswith (str_lower B n) (ustr ''set '')
                   then Inr (ustr ''set'') else rest
               | PBytes b \<Rightarrow>
                   if contains (ustr ''set'') cls then Inr (ustr ''set'') else Inl TypeError
               | _ \<Rightarrow> Inl AttributeError)
       | _ \<Rightarrow> Inl AttributeError)"

text \<open>\<open>isinstance(t, (int, float))\<close> followed by \<open>float(t)\<close>; \<open>bool\<close> is a subclass of \<open>int\<close>.\<close>

fun tempo_float :: "pval \<Rightarrow> (error + pyfloat) option" where
  "tempo_float (PInt i) = Some (float_of_int i)"
| "tempo_float (PBool b) = Some (Inr (Finite (if b then 1 else 0) 0))"
| "tempo_float (PFloat f) = Some (Inr f)"
| "tempo_float v = None"

text \<open>The last loop of \<open>infer_bpm_from_node\<close>, over \<open>node.items()\<close>.\<close>

fun nested_tempo :: "pydict \<Rightarrow> error + pyfloat option" where
  "nested_tempo [] = Inr None"
| "nested_tempo ((k, v) # rest) =
     (case v of
        PDict d \<Rightarrow>
          (case tempo_float (dget d (ustr ''tempo'')) of
             Some r \<Rightarrow> (case r of Inl e \<Rightarrow> Inl e | Inr f \<Rightarrow> Inr (Some f))
           | None \<Rightarrow> nested_tempo rest)
      | _ \<Rightarrow> nested_tempo rest)"

definition infer_bpm_from_node :: "pval \<Rightarrow> error + pyfloat option" where
  "infer_bpm_from_node node =
     (case node of
        PDict d \<Rightarrow>
          (case tempo_float (dget d (ustr ''tempo'')) of
             Some r \<Rightarrow> (case r of Inl e \<Rightarrow> Inl e | Inr f \<Rightarrow> Inr (Some f))
           | None \<Rightarrow>
               (case (case dget d (ustr ''engineNode'') of
                        PDict eng \<Rightarrow> tempo_float (dget eng (ustr ''tempo''))
                      | _ \<Rightarrow> None) of
                  Some r \<Rightarrow> (case r of Inl e \<Rightarrow> Inl e | Inr f \<Rightarrow> Inr (Some f))
                | None \<Rightarrow> nested_tempo d))
      | _ \<Rightarrow> Inl AttributeError)"

definition infer_strip_kind :: "builtins \<Rightarrow> pval \<Rightarrow> error + pystr" where
  "infer_strip_kind B raw_strip =
     (case raw_strip of
        PDict d \<Rightarrow>
          (case por (dget d (ustr ''stripType'')) (por (dget d (ustr ''type'')) (PStr [])) of
             PStr k \<Rightarrow>
               let kind = str_lower B k in
               if contains (ustr ''inst'') kind then Inr (ustr ''instrument'')
               else if contains (ustr ''audio'') kind then Inr (ustr ''audio'')
               else if contains (ustr ''midi'') kind then Inr (ustr ''midi'')
               else if list_ex (has_key d)
                         (map ustr [''instrument'', ''softwareInstrument'', ''instrumentPlugin''])
                 then Inr (ustr ''instrument'')
                 else Inr (ustr ''instrument'')
           | PBytes b \<Rightarrow> Inl TypeError
           | _ \<Rightarrow> Inl AttributeError)
      | _ \<Rightarrow> Inl AttributeError)"

text \<open>The loop of \<open>infer_key_range\<close> over the candidate pairs of keys.\<close>

fun key_range_of :: "builtins \<Rightarrow> pydict \<Rightarrow> (pystr \<times> pystr) list \<Rightarrow> KeyRange option" where
  "key_range_of B d [] = None"
| "key_range_of B d ((lk, hk) # rest) =
     (case (coerce_int B (dget d lk), coerce_int B (dget d hk)) of
        (Some low_i, Some high_i) \<Rightarrow>
          Some \<lparr>low = max 0 (min 127 low_i), high = max 0 (min 127 high_i)\<rparr>
      | _ \<Rightarrow> key_range_of B d rest)"

definition infer_key_range :: "builtins \<Rightarrow> pval \<Rightarrow> error + KeyRange option" where
  "infer_key_range B raw_strip =
     (case raw_strip of
        PDict d \<Rightarrow>
          Inr (key_range_of B d
                 [(ustr ''keyRangeLow'', ustr ''keyRangeHigh''), (ustr ''keyLow'', ustr ''keyHigh''),
                  (ustr ''noteLow'', ustr ''noteHigh''), (ustr ''lowKey'', ustr ''highKey'')])
      | _ \<Rightarrow> Inl AttributeError)"

text \<open>The \<open>Plugin\<close> built from one dict of \<open>possibles\<close>.\<close>

definition plugin_of :: "pydict \<Rightarrow> Plugin" where
  "plugin_of p =
     \<lparr>plugin_name =
        (case first_str p (map ustr [''name'', ''Name'', ''title'', ''Title'']) of
           Some n \<Rightarrow> n | None \<Rightarrow> ustr ''Plugin''),
      manufacturer = first_str p (map ustr [''manufacturer'', ''maker'']),
      plugin_kind = first_str p (map ustr [''type'', ''kind'']),
      plugin_identifier = first_str p (map ustr [''identifier'', ''bundleID'', ''componentID'']),
      params = (case dget p (ustr ''params'') of PDict q \<Rightarrow> q | _ \<Rightarrow> [])\<rparr>"

fun dicts_of :: "pval list \<Rightarrow> pydict list" where
  "dicts_of [] = []"
| "dicts_of (PDict d # xs) = d # dicts_of xs"
| "dicts_of (v # xs) = dicts_of xs"

definition infer_plugins :: "pval \<Rightarrow> error + Plugin list" where
  "infer_plugins raw_strip =
     (case raw_strip of
        PDict d \<Rightarrow>
          let possibles =
                dicts_of (map (dget d)
                  (map ustr [''instrument'', ''instrumentPlugin'', ''softwareInstrument'']));
              inserts = por (dget d (ustr ''inserts'')) (por (dget d (ustr ''audioFX'')) (PList []));
              possibles = (case inserts of PList xs \<Rightarrow> possibles @ dicts_of xs | _ \<Rightarrow> possibles)
          in Inr (map plugin_of possibles)
      | _ \<Rightarrow> Inl AttributeError)"

text \<open>\<open>parse_channel_strip\<close> always returns a strip when it returns.\<close>

definition parse_channel_strip :: "builtins \<Rightarrow> pval \<Rightarrow> error + ChannelStrip option" where
  "parse_channel_strip B raw_strip =
     (case raw_strip of
        PDict d \<Rightarrow>
          let name = normalize_name (por (dget d (ustr ''name'')) (por (dget d (ustr ''stripName''))
                       (por (dget d (ustr ''Name'')) (PStr (ustr ''Strip'')))))
          in ebind (infer_strip_kind B raw_strip) (\<lambda>knd.
             let midi = coerce_int B (por (dget d (ustr ''midiChannel'')) (dget d (ustr ''midi_channel'')));
                 tr = coerce_int B (por (dget d (ustr ''transpose'')) (PInt 0))
             in ebind (infer_key_range B raw_strip) (\<lambda>kr.
                ebind (infer_plugins raw_strip) (\<lambda>pl.
                  Inr (Some \<lparr>strip_name = name, kind = knd, midi_channel = midi, key_range = kr,
                       transpose = (case tr of Some t \<Rightarrow> t | None \<Rightarrow> 0),
                       plugins = pl,
                       strip_notes = [(ustr ''_sourceClass'',
                          por (dget d (ustr ''class'')) (dget d (ustr ''_class'')))]\<rparr>))))
      | _ \<Rightarrow> Inl AttributeError)"

text \<open>The first loop of \<open>extract_channel_strips\<close>: the first key holding a list.\<close>

fun first_list_value :: "pydict \<Rightarrow> pystr list \<Rightarrow> pval list" where
  "first_list_value d [] = []"
| "first_list_value d (k # ks) =
     (case dget d k of PList xs \<Rightarrow> xs | _ \<Rightarrow> first_list_value d ks)"

text \<open>The second loop, over \<open>node.items()\<close>: the first list whose head looks like a strip.\<close>

fun strip_like_list :: "pydict \<Rightarrow> pval list" where
  "strip_like_list [] = []"
| "strip_like_list ((k, v) # rest) =
     (case v of
        PList (PDict h # xs) \<Rightarrow>
          if list_ex (has_key h) (map ustr [''stripType'', ''strip'', ''instrument'', ''plugins''])
          then PDict h # xs else strip_like_list rest
      | _ \<Rightarrow> strip_like_list rest)"

fun somes :: "'a option list \<Rightarrow> 'a list" where
  "somes [] = []"
| "somes (Some x # xs) = x # somes xs"
| "somes (None # xs) = somes xs"

definition extract_channel_strips :: "builtins \<Rightarrow> pval \<Rightarrow> error + ChannelStrip list" where
  "extract_channel_strips B node =
     (case node of
        PDict d \<Rightarrow>
          let candidates = first_list_value d
                (map ustr [''channelStrips'', ''channel_strips'', ''strips'', ''mixerStrips'']);
              candidates = (if candidates = [] then strip_like_list d else candidates)
          in ebind (emap (parse_channel_strip B) candidates) (\<lambda>cs. Inr (somes cs))
      | _ \<Rightarrow> Inl AttributeError)"

definition extract_patch :: "builtins \<Rightarrow> pval \<Rightarrow> error + Patch" where
  "extract_patch B node =
     ebind (node_name node) (\<lambda>nm.
       let name = normalize_name (por nm (PStr (ustr ''Patch''))) in
       ebind (extract_channel_strips B node) (\<lambda>strips.
       ebind (node_class B node) (\<lambda>cls.
       let attrs = [(ustr ''_sourceClass'', PStr cls)] in
       ebind (infer_bpm_from_node node) (\<lambda>bpm.
         Inr \<lparr>patch_name = name, channel_strips = strips,
              patch_attributes =
                (case bpm of Some f \<Rightarrow> AList.update (ustr ''bpm'') (PFloat f) attrs
                 | None \<Rightarrow> attrs)\<rparr>))))"

text \<open>The first loop of \<open>find_patchlist_children\<close>: the first key holding a non-empty list.\<close>

fun first_nonempty_list :: "pydict \<Rightarrow> pystr list \<Rightarrow> pval list option" where
  "first_nonempty_list d [] = None"
| "first_nonempty_list d (k # ks) =
     (case dget d k of
        PList (x # xs) \<Rightarrow> Some (x # xs)
      | _ \<Rightarrow> first_nonempty_list d ks)"

text \<open>
  \<open>find_patchlist_children\<close>, with \<open>find_in_values\<close> for its second loop over
  \<open>raw.values()\<close>; the search descends into every dict-valued entry.
\<close>

fun find_patchlist_children :: "pval \<Rightarrow> error + pval list option"
  and find_in_values :: "pydict \<Rightarrow> error + pval list option" where
  "find_patchlist_children (PDict d) =
     (case first_nonempty_list d
             (map ustr [''children'', ''_children'', ''patches'', ''sets'', ''rootChildren'',
                ''PatchList'']) of
        Some xs \<Rightarrow> Inr (Some xs)
      | None \<Rightarrow> find_in_values d)"
| "find_patchlist_children v = Inl AttributeError"
| "find_in_values [] = Inr None"
| "find_in_values ((k, v) # rest) =
     (case v of
        PDict d' \<Rightarrow>
          (case find_patchlist_children v of
             Inl e \<Rightarrow> Inl e
           | Inr (Some (c # cs)) \<Rightarrow> Inr (Some (c # cs))
           | Inr _ \<Rightarrow> find_in_values rest)
      | _ \<Rightarrow> find_in_values rest)"

text \<open>The elements \<open>for c in ch\<close> visits when \<open>node.get(k)\<close> is a list, none otherwise.\<close>

definition list_children :: "pydict \<Rightarrow> pystr \<Rightarrow> pval list" where
  "list_children d k = (case dget d k of PList xs \<Rightarrow> xs | _ \<Rightarrow> [])"

text \<open>
  \<open>extract_patches_recursive\<close>, with \<open>extract_patches_each\<close> for its inner loop over the
  elements of one list. A node is larger than every element of the lists it holds.
\<close>

function extract_patches_recursive :: "builtins \<Rightarrow> pval \<Rightarrow> error + Patch list"
  and extract_patches_each :: "builtins \<Rightarrow> pval list \<Rightarrow> error + Patch list" where
  "extract_patches_recursive B node =
     (case classify_node B node of
        Inl e \<Rightarrow> Inl e
      | Inr t \<Rightarrow>
          (case (if t = ustr ''patch'' then ebind (extract_patch B node) (\<lambda>p. Inr [p]) else Inr []) of
             Inl e \<Rightarrow> Inl e
           | Inr out \<Rightarrow>
               (case node of
                  PDict d \<Rightarrow>
                    (case extract_patches_each B (list_children d (ustr ''children'')) of
                       Inl e \<Rightarrow> Inl e
                     | Inr a \<Rightarrow>
                    (case extract_patches_each B (list_children d (ustr ''_children'')) of
                       Inl e \<Rightarrow> Inl e
                     | Inr b \<Rightarrow>
                    (case extract_patches_each B (list_children d (ustr ''patches'')) of
                       Inl e \<Rightarrow> Inl e
                     | Inr c \<Rightarrow> Inr (out @ a @ b @ c))))
                | _ \<Rightarrow> Inl AttributeError)))"
| "extract_patches_each B [] = Inr []"
| "extract_patches_each B (c # cs) =
     (case extract_patches_recursive B c of
        Inl e \<Rightarrow> Inl e
      | Inr ps \<Rightarrow> (case extract_patches_each B cs of Inl e \<Rightarrow> Inl e | Inr qs \<Rightarrow> Inr (ps @ qs)))"
  by pat_completeness auto

termination
proof -
  have sz: "size_list size (list_children d k) < Suc (size_list (size_prod (\<lambda>x. 0) size) d)"
    for d k
  proof (induction d)
    case Nil
    show ?case by (simp add: list_children_def dget_def)
  next
    case (Cons kv d)
    obtain k' v where kv: "kv = (k', v)" by (cases kv)
    show ?case
    proof (cases "k' = k")
      case True
      then show ?thesis using kv by (cases v) (simp_all add: list_children_def dget_def)
    next
      case False
      then have "list_children (kv # d) k = list_children d k"
        using kv by (simp add: list_children_def dget_def)
      then show ?thesis using Cons.IH by simp
    qed
  qed
  show ?thesis
    by (relation "measure (case_sum (\<lambda>(B, v). size v) (\<lambda>(B, xs). size_list size xs))")
       (auto simp add: sz)
qed

definition extract_patches_from_set :: "builtins \<Rightarrow> pval \<Rightarrow> error + Patch list" where
  "extract_patches_from_set B node =
     (case node of
        PDict d \<Rightarrow>
          ebind (py_iter (por (dget d (ustr ''children'')) (por (dget d (ustr ''_children''))
                   (por (dget d (ustr ''patches'')) (PList []))))) (\<lambda>children.
          ebind (emap (\<lambda>ch.
                   ebind (classify_node B ch) (\<lambda>t.
                     if t = ustr ''patch'' then ebind (extract_patch B ch) (\<lambda>p. Inr [p])
                     else extract_patches_recursive B ch)) children) (\<lambda>pss.
            Inr (concat pss)))
      | _ \<Rightarrow> Inl AttributeError)"

text \<open>The string held by a value that is a string.\<close>

fun str_value :: "pval \<Rightarrow> pystr" where
  "str_value (PStr s) = s"
| "str_value v = []"

text \<open>
  The body of the loop of \<open>extract_sets_and_patches\<close> over the root children: the sets
  (none or one) that one child appends.
\<close>

definition sets_of_child :: "builtins \<Rightarrow> pval \<Rightarrow> error + PSet list" where
  "sets_of_child B child =
     ebind (classify_node B child) (\<lambda>child_type.
       if child_type = ustr ''set'' then
         ebind (node_name child) (\<lambda>nm.
         ebind (extract_patches_from_set B child) (\<lambda>ps.
         ebind (node_class B child) (\<lambda>cls.
           Inr [\<lparr>set_name = normalize_name (por nm (PStr (ustr ''Set''))), patches = ps,
                 set_attributes = [(ustr ''_sourceClass'', PStr cls)]\<rparr>])))
       else if child_type = ustr ''patch'' then
         ebind (extract_patch B child) (\<lambda>patch.
           Inr [\<lparr>set_name = patch_name patch, patches = [patch],
                 set_attributes = [(ustr ''_implicit'', PBool True)]\<rparr>])
       else
         ebind (extract_patches_recursive B child) (\<lambda>ps.
           if ps \<noteq> [] then
             ebind (node_name child) (\<lambda>nm.
             ebind (node_class B child) (\<lambda>cls.
               Inr [\<lparr>set_name = str_value (por nm (PStr (ustr ''Set''))), patches = ps,
                     set_attributes = [(ustr ''_sourceClass'', PStr cls)]\<rparr>]))
           else Inr []))"

text \<open>The set \<open>Default\<close> that wraps a scan of the whole document.\<close>

definition default_set :: "builtins \<Rightarrow> pval \<Rightarrow> error + PSet list" where
  "default_set B raw =
     ebind (extract_patches_recursive B raw) (\<lambda>ps.
       Inr [\<lparr>set_name = ustr ''Default'', patches = ps, set_attributes = []\<rparr>])"

definition extract_sets_and_patches :: "builtins \<Rightarrow> pval \<Rightarrow> error + PSet list" where
  "extract_sets_and_patches B raw =
     ebind (find_patchlist_children raw) (\<lambda>root_children.
       case root_children of
         Some (c # cs) \<Rightarrow>
           ebind (emap (sets_of_child B) (c # cs)) (\<lambda>ss.
             if concat ss \<noteq> [] then Inr (concat ss) else default_set B raw)
       | _ \<Rightarrow> default_set B raw)"

section \<open>The embedded-archive decoder and the legacy channel parser\<close>

text \<open>The loop with \<open>break\<close>: the first dict that has both \<open>lowNote\<close> and \<open>highNote\<close>.\<close>

fun find_target :: "pval list \<Rightarrow> pydict option" where
  "find_target [] = None"
| "find_target (PDict o' # os) =
     (if has_key o' (ustr ''lowNote'') \<and> has_key o' (ustr ''highNote'') then Some o'
      else find_target os)"
| "find_target (v # os) = find_target os"

text \<open>
  The body of the \<open>try\<close> block of \<open>parse_legacy_channel\<close>: the key range and transpose
  it assigns, or the exception it raises.
\<close>

definition decode_layer :: "builtins \<Rightarrow> nat list \<Rightarrow> error + (KeyRange option \<times> int)" where
  "decode_layer B layer_blob =
     ebind (plist_loads B layer_blob) (\<lambda>layer.
       case layer of
         PDict l \<Rightarrow>
           ebind (py_iter (case map_of l (ustr ''$objects'') of Some v \<Rightarrow> v | None \<Rightarrow> PList []))
             (\<lambda>objects.
               case find_target objects of
                 Some target \<Rightarrow>
                   if truthy (PDict target) then
                     Inr ((case (coerce_int B (dget target (ustr ''lowNote'')),
                                 coerce_int B (dget target (ustr ''highNote''))) of
                             (Some l, Some h) \<Rightarrow>
                               Some \<lparr>low = max 0 (min 127 l), high = max 0 (min 127 h)\<rparr>
                           | _ \<Rightarrow> None),
                          (case coerce_int B (dget target (ustr ''transpose'')) of
                             Some tz \<Rightarrow> tz | None \<Rightarrow> 0))
                   else Inr (None, 0)
               | None \<Rightarrow> Inr (None, 0))
       | _ \<Rightarrow> Inl AttributeError)"

definition parse_legacy_channel ::
    "builtins \<Rightarrow> pval \<Rightarrow> pystr option \<Rightarrow> error + ChannelStrip option" where
  "parse_legacy_channel B ch subpatch_name =
     (case ch of
        PDict d \<Rightarrow>
          let name = normalize_name (por (dget d (ustr ''Channel_name''))
                       (por (dget d (ustr ''name'')) (PStr (ustr ''Strip''))));
              decoded = (case dget d (ustr ''layer'') of
                           PBytes layer_blob \<Rightarrow>
                             (case decode_layer B layer_blob of
                                Inl e \<Rightarrow> (None, 0)
                              | Inr r \<Rightarrow> r)
                         | _ \<Rightarrow> (None, 0));
              pl = (case dget d (ustr ''Filename'') of
                      PStr inst_filename \<Rightarrow>
                        if inst_filename \<noteq> [] then
                          [\<lparr>plugin_name = inst_filename, manufacturer = None,
                            plugin_kind = Some (ustr ''channelStrip''), plugin_identifier = None,
                            params = []\<rparr>]
                        else []
                    | _ \<Rightarrow> []);
              nts = [(ustr ''_legacy'', PBool True)];
              nts = (case subpatch_name of
                       Some sp \<Rightarrow>
                         if sp \<noteq> [] then
                           AList.update (ustr ''subpatch'') (PStr (normalize_name (PStr sp))) nts
                         else nts
                     | None \<Rightarrow> nts)
          in Inr (Some \<lparr>strip_name = name, kind = ustr ''instrument'', midi_channel = None,
                   key_range = fst decoded, transpose = snd decoded, plugins = pl,
                   strip_notes = nts\<rparr>)
      | _ \<Rightarrow> Inr None)"

section \<open>An instance of the built-ins for ASCII documents\<close>

text \<open>
  On ASCII text \<open>str.lower\<close> maps \<open>A\<close>..\<open>Z\<close> to \<open>a\<close>..\<open>z\<close>. The concrete evaluations
  below are on documents whose class and type fields are ASCII strings and whose
  numbers are integers, where the other built-ins are not called, or are fixed by
  the statement.
\<close>

definition ascii_lower :: "pystr \<Rightarrow> pystr" where
  "ascii_lower s = map (\<lambda>c. if 65 \<le> c \<and> c \<le> 90 then c + 32 else c) s"

definition ascii_builtins :: builtins where
  "ascii_builtins =
     \<lparr>str_lower = ascii_lower, py_str = (\<lambda>v. []), int_of_str = (\<lambda>s. None),
      int_of_bytes = (\<lambda>b. None), plist_loads = (\<lambda>b. Inl PlistError)\<rparr>"

text \<open>What the round trip reads back from a layer, and the same fields of a channel strip.\<close>

definition layer_fields :: "Layer \<Rightarrow> pystr \<times> int \<times> (int \<times> int) option" where
  "layer_fields l =
     (layer_name l, layer_transpose l, map_option (\<lambda>k. (kr_low k, kr_high k)) (keyRange l))"

definition strip_fields :: "ChannelStrip \<Rightarrow> pystr \<times> int \<times> (int \<times> int) option" where
  "strip_fields cs =
     (strip_name cs, transpose cs, map_option (\<lambda>k. (low k, high k)) (key_range cs))"

text \<open>What a reader of a flattened session sees of a song.\<close>

definition song_fields :: "Song \<Rightarrow> pystr \<times> Scene list \<times> pval \<times> pval" where
  "song_fields g =
     (song_name g, scenes g, dget (song_metadata g) (ustr ''_fromSet''),
      dget (song_metadata g) (ustr ''bpm''))"

text \<open>A concert with one set of two patches, the first with a tempo.\<close>

definition intro_patch :: Patch where
  "intro_patch = \<lparr>patch_name = ustr ''Intro'', channel_strips = [],
     patch_attributes = [(ustr ''bpm'', PFloat (Finite 120 0))]\<rparr>"

definition verse_patch :: Patch where
  "verse_patch = \<lparr>patch_name = ustr ''Verse'', channel_strips = [], patch_attributes = []\<rparr>"

definition two_patch_concert :: Concert where
  "two_patch_concert =
     \<lparr>concert_name = ustr ''Gig'',
      sets = [\<lparr>set_name = ustr ''Set 1'', patches = [intro_patch, verse_patch],
               set_attributes = []\<rparr>],
      concert_attributes = []\<rparr>"

text \<open>The invariant of a \<open>KeyRange\<close>: both bounds are MIDI notes.\<close>

definition in_midi_range :: "KeyRange \<Rightarrow> bool" where
  "in_midi_range kr = (0 \<le> low kr \<and> low kr \<le> 127 \<and> 0 \<le> high kr \<and> high kr \<le> 127)"

text \<open>The pairs of keys \<open>infer_key_range\<close> tries, in its order.\<close>

definition key_range_aliases :: "(pystr \<times> pystr) list" where
  "key_range_aliases =
     [(ustr ''keyRangeLow'', ustr ''keyRangeHigh''), (ustr ''keyLow'', ustr ''keyHigh''),
      (ustr ''noteLow'', ustr ''noteHigh''), (ustr ''lowKey'', ustr ''highKey'')]"

text \<open>
  A raw strip that has no \<open>keyRangeLow\<close> and whose \<open>keyLow\<close> and \<open>keyHigh\<close> are out of
  range and in the wrong order.
\<close>

definition wide_strip :: pydict where
  "wide_strip = [(ustr ''name'', PStr (ustr ''Pad'')), (ustr ''keyLow'', PInt 200),
     (ustr ''keyHigh'', PInt (- 5))]"

text \<open>
  A decoded \<open>layer\<close> archive: a flat object array whose second object has the two
  note attributes, out of range, and a transpose.
\<close>

definition layer_archive :: pval where
  "layer_archive =
     PDict [(ustr ''$objects'',
       PList [PStr (ustr ''$null''),
              PDict [(ustr ''lowNote'', PInt 130), (ustr ''highNote'', PInt (- 3)),
                     (ustr ''transpose'', PInt 12)]])]"

text \<open>The built-ins with a \<open>plistlib.loads\<close> that decodes every payload to that archive.\<close>

definition archive_builtins :: builtins where
  "archive_builtins = ascii_builtins\<lparr>plist_loads := (\<lambda>b. Inr layer_archive)\<rparr>"

text \<open>
  The built-ins with a \<open>plistlib.loads\<close> that decodes every payload to an array, not a
  dict: the \<open>layer.get\<close> of the decoder then raises \<open>AttributeError\<close>.
\<close>

definition array_builtins :: builtins where
  "array_builtins =
     ascii_builtins\<lparr>plist_loads :=
       (\<lambda>b. Inr (PList [PDict [(ustr ''lowNote'', PInt 36), (ustr ''highNote'', PInt 72)]]))\<rparr>"

text \<open>A legacy channel dict with a \<open>layer\<close> payload of two bytes.\<close>

definition legacy_channel_dict :: pydict where
  "legacy_channel_dict =
     [(ustr ''Channel_name'', PStr (ustr ''Pad'')), (ustr ''layer'', PBytes [98, 112])]"

definition legacy_channel :: pval where
  "legacy_channel = PDict legacy_channel_dict"

text \<open>The strip \<open>parse_legacy_channel\<close> builds from it, by decoded key range and transpose.\<close>

definition legacy_strip :: "KeyRange option \<Rightarrow> int \<Rightarrow> ChannelStrip" where
  "legacy_strip kr tz =
     \<lparr>strip_name = ustr ''Pad'', kind = ustr ''instrument'', midi_channel = None,
      key_range = kr, transpose = tz, plugins = [],
      strip_notes = [(ustr ''_legacy'', PBool True)]\<rparr>"

text \<open>A node of class \<open>Patch\<close> whose name begins with \<open>Set\<close>.\<close>

definition set_named_patch :: pval where
  "set_named_patch =
     PDict [(ustr ''class'', PStr (ustr ''Patch'')), (ustr ''name'', PStr (ustr ''Set 1''))]"

text \<open>A node of class \<open>MSPatch\<close> that also has a children list.\<close>

definition lead_patch :: pval where
  "lead_patch =
     PDict [(ustr ''class'', PStr (ustr ''MSPatch'')), (ustr ''name'', PStr (ustr ''Lead'')),
            (ustr ''children'', PList [])]"

text \<open>A document with one patch whose \<open>channelStrips\<close> list holds a string.\<close>

definition strings_document :: pval where
  "strings_document =
     PDict [(ustr ''patches'',
       PList [PDict [(ustr ''name'', PStr (ustr ''Lead'')), (ustr ''class'', PStr (ustr ''Patch'')),
                     (ustr ''channelStrips'', PList [PStr (ustr ''Piano'')])]])]"

text \<open>A patch node whose name is one space.\<close>

definition blank_patch :: pval where
  "blank_patch = PDict [(ustr ''class'', PStr (ustr ''Patch'')), (ustr ''name'', PStr (ustr '' ''))]"

text \<open>No two adjacent characters of the string are both whitespace.\<close>

fun no_space_pair :: "pystr \<Rightarrow> bool" where
  "no_space_pair [] = True"
| "no_space_pair [c] = True"
| "no_space_pair (a # b # cs) = (\<not> (isspace a \<and> isspace b) \<and> no_space_pair (b # cs))"

section \<open>The session mapper: layers\<close>

lemma layers_scene_from_patch:
  "map layer_fields (layers (scene_from_patch p b))
   = map strip_fields (filter (\<lambda>cs. kind cs = ustr ''instrument'') (channel_strips p))"
  by (simp add: scene_from_patch_def Let_def layer_from_strip_def to_dict_def o_def
      layer_fields_def strip_fields_def split: option.split)

lemma scenes_flat_songs:
  "concat (map scenes (map (flat_song s) ps)) = map (\<lambda>p. scene_from_patch p True) ps"
  by (induction ps) (simp_all add: flat_song_def Let_def)

lemma scenes_flat:
  "concat (map scenes (concat (map (\<lambda>s. map (flat_song s) (patches s)) ss)))
   = map (\<lambda>p. scene_from_patch p True) (concat (map patches ss))"
proof (induction ss)
  case Nil
  show ?case by simp
next
  case (Cons s ss)
  show ?case using Cons.IH scenes_flat_songs [of s "patches s"] by simp
qed

lemma scenes_grouped:
  "concat (map scenes (map grouped_song ss))
   = map (\<lambda>p. scene_from_patch p False) (concat (map patches ss))"
  by (induction ss) (simp_all add: grouped_song_def Let_def)

text \<open>
  In both modes the scenes of the session, read song by song, are the scenes of the
  concert's patches, read set by set.
\<close>

lemma all_scenes:
  "concat (map scenes (songs (build_camelot_session now_iso concert flatten_sets src_path)))
   = map (\<lambda>p. scene_from_patch p flatten_sets) (concat (map patches (sets concert)))"
  using scenes_flat [of "sets concert"] scenes_grouped [of "sets concert"]
  by (cases flatten_sets) (simp_all add: build_camelot_session_def)

text \<open>
  C2. For every concert and in both mapper modes, the scene built from each patch has
  exactly one layer per channel strip of kind \<open>instrument\<close>, in the strips' order, and
  the name, transpose and key range of each layer are those of its strip; a strip of
  another kind gives no layer.
\<close>

theorem layers_are_instrument_strips:
  "map (\<lambda>sc. map layer_fields (layers sc))
       (concat (map scenes (songs (build_camelot_session now_iso concert flatten_sets src_path))))
   = map (\<lambda>p. map strip_fields
                 (filter (\<lambda>cs. kind cs = ustr ''instrument'') (channel_strips p)))
       (concat (map patches (sets concert)))"
  unfolding all_scenes by (simp add: layers_scene_from_patch)

section \<open>The session mapper: flattened mode\<close>

lemma dget_update_other: "k \<noteq> k' \<Longrightarrow> dget (AList.update k v d) k' = dget d k'"
  by (simp add: dget_def update_conv')

lemma dget_update_same: "dget (AList.update k v d) k = v"
  by (simp add: dget_def update_conv')

lemma ustr_fromSet_bpm:
  "ustr ''bpm'' \<noteq> ustr ''_fromSet''" "ustr ''_fromSet'' \<noteq> ustr ''bpm''"
  by (simp_all add: ustr_def)

lemma flat_song_scenes: "scenes (flat_song s p) = [scene_from_patch p True]"
  by (simp add: flat_song_def Let_def)

lemma flat_song_name: "song_name (flat_song s p) = patch_name p"
  by (simp add: flat_song_def Let_def)

lemma flat_song_fromSet:
  "dget (song_metadata (flat_song s p)) (ustr ''_fromSet'') = PStr (set_name s)"
  by (simp add: flat_song_def Let_def dget_update_other ustr_fromSet_bpm)
     (simp add: dget_def)

lemma flat_song_bpm:
  "dget (song_metadata (flat_song s p)) (ustr ''bpm'') = dget (patch_attributes p) (ustr ''bpm'')"
  by (simp add: flat_song_def Let_def dget_update_same)
     (simp add: dget_def ustr_fromSet_bpm)

text \<open>
  C4. In flattened mode the songs of the session are, in order, one song per patch of
  every set: the song has the patch's name and exactly one scene, the scene of that
  patch; its metadata holds \<open>_fromSet\<close> with the name of the patch's set, and \<open>bpm\<close>
  with the patch's tempo when the patch has one (and no \<open>bpm\<close> otherwise).
\<close>

theorem flattened_one_song_per_patch:
  "map song_fields (songs (build_camelot_session now_iso concert True src_path))
   = concat (map (\<lambda>s. map (\<lambda>p. (patch_name p, [scene_from_patch p True], PStr (set_name s),
                                 dget (patch_attributes p) (ustr ''bpm''))) (patches s))
               (sets concert))"
  by (simp add: build_camelot_session_def map_concat o_def song_fields_def flat_song_scenes
      flat_song_name flat_song_fromSet flat_song_bpm)

text \<open>One set of two patches gives two songs of one scene each.\<close>

theorem flattened_two_patches:
  "map song_fields
     (songs (build_camelot_session (ustr ''2024-01-01T20:00:00'') two_patch_concert True
        (ustr ''Gig.concert'')))
   = [(ustr ''Intro'', [scene_from_patch intro_patch True], PStr (ustr ''Set 1''),
       PFloat (Finite 120 0)),
      (ustr ''Verse'', [scene_from_patch verse_patch True], PStr (ustr ''Set 1''), PNone)]"
  using flattened_one_song_per_patch
    [of "ustr ''2024-01-01T20:00:00''" two_patch_concert "ustr ''Gig.concert''"]
  by (simp add: two_patch_concert_def intro_patch_def verse_patch_def dget_def ustr_def)

section \<open>The session mapper and the clock\<close>

text \<open>
  C6 as stated fails: two calls with the same concert, flag and path at different
  clock readings give different documents.
\<close>

theorem session_differs_with_clock:
  "build_camelot_session (ustr ''2024-01-01T20:00:00'')
      \<lparr>concert_name = ustr ''Gig'', sets = [], concert_attributes = []\<rparr> False
      (ustr ''Gig.concert'')
   \<noteq> build_camelot_session (ustr ''2024-01-01T20:00:01'')
      \<lparr>concert_name = ustr ''Gig'', sets = [], concert_attributes = []\<rparr> False
      (ustr ''Gig.concert'')"
  by (simp add: build_camelot_session_def ustr_def)

text \<open>
  C6, amended. Two calls with the same concert, flag and path give documents that
  differ at most in \<open>createdAt\<close> and \<open>source.extractedAt\<close>, which hold the clock reading
  of the call: version, name, source type and path, songs and metadata are the same.
\<close>

theorem session_deterministic_up_to_clock:
  "build_camelot_session t1 concert flatten_sets src_path
   = (build_camelot_session t2 concert flatten_sets src_path)
       \<lparr>createdAt := t1,
        source := (source (build_camelot_session t2 concert flatten_sets src_path))
                    \<lparr>extractedAt := t1\<rparr>\<rparr>"
  by (simp add: build_camelot_session_def)

section \<open>Key ranges and the legacy channel parser\<close>

lemma key_range_of_in_range:
  "key_range_of B d ps = Some kr \<Longrightarrow> in_midi_range kr"
  by (induction ps) (auto simp add: in_midi_range_def split: option.splits)

lemma infer_key_range_in_range:
  "infer_key_range B raw_strip = Inr (Some kr) \<Longrightarrow> in_midi_range kr"
  by (cases raw_strip)
     (auto simp add: infer_key_range_def simp del: key_range_of.simps
        dest: key_range_of_in_range)

lemma decode_layer_in_range:
  "decode_layer B blob = Inr (Some kr, tz) \<Longrightarrow> in_midi_range kr"
  by (auto simp add: decode_layer_def ebind_def in_midi_range_def
      split: sum.splits pval.splits option.splits if_splits)

lemma parse_legacy_channel_in_range:
  assumes "parse_legacy_channel B ch sp = Inr (Some cs)" and "key_range cs = Some kr"
  shows "in_midi_range kr"
proof (cases ch)
  case (PDict d)
  show ?thesis
  proof (cases "dget d (ustr ''layer'')")
    case (PBytes blob)
    show ?thesis
    proof (cases "decode_layer B blob")
      case (Inl e)
      then show ?thesis using assms PDict PBytes
        by (auto simp add: parse_legacy_channel_def Let_def)
    next
      case (Inr r)
      obtain k tz where r: "r = (k, tz)" by (cases r)
      have "k = Some kr" using assms PDict PBytes Inr r
        by (auto simp add: parse_legacy_channel_def Let_def)
      then show ?thesis using Inr r decode_layer_in_range by blast
    qed
  qed (use assms PDict in \<open>auto simp add: parse_legacy_channel_def Let_def\<close>)
qed (use assms in \<open>auto simp add: parse_legacy_channel_def\<close>)

lemma infer_key_range_aliases:
  "infer_key_range B (PDict d) = Inr (key_range_of B d key_range_aliases)"
  by (simp add: infer_key_range_def key_range_aliases_def)

text \<open>The loop returns the clamps of the first pair of keys that both hold integers.\<close>

lemma key_range_of_first:
  assumes "\<forall>(a, b)\<in>set ps. coerce_int B (dget d a) = None \<or> coerce_int B (dget d b) = None"
    and "coerce_int B (dget d lk) = Some l" and "coerce_int B (dget d hk) = Some h"
  shows "key_range_of B d (ps @ (lk, hk) # qs)
     = Some \<lparr>low = max 0 (min 127 l), high = max 0 (min 127 h)\<rparr>"
  using assms(1)
proof (induction ps)
  case Nil
  show ?case using assms(2,3) by simp
next
  case (Cons p ps)
  obtain a b where p: "p = (a, b)" by (cases p)
  have "coerce_int B (dget d a) = None \<or> coerce_int B (dget d b) = None"
    using Cons.prems p by simp
  then have "key_range_of B d ((a, b) # ps @ (lk, hk) # qs) = key_range_of B d (ps @ (lk, hk) # qs)"
    by (auto split: option.splits)
  then show ?case using Cons p by simp
qed

text \<open>The target of the decoder is a dict of the array that has both note attributes.\<close>

lemma find_target_some:
  "find_target os = Some t
   \<Longrightarrow> PDict t \<in> set os \<and> has_key t (ustr ''lowNote'') \<and> has_key t (ustr ''highNote'')"
  by (induction os rule: find_target.induct) (auto split: if_splits)

lemma py_iter_dict_element: "py_iter v = Inr os \<Longrightarrow> PDict t \<in> set os \<Longrightarrow> v = PList os"
  by (cases v) auto

text \<open>What the \<open>try\<close> block assigns when the payload decodes to a dict with a target.\<close>

lemma decode_layer_target:
  assumes "plist_loads B blob = Inr (PDict a)"
    and "map_of a (ustr ''$objects'') = Some (PList os)" and "find_target os = Some t"
  shows "decode_layer B blob =
     Inr ((case (coerce_int B (dget t (ustr ''lowNote'')),
                 coerce_int B (dget t (ustr ''highNote''))) of
             (Some l, Some h) \<Rightarrow> Some \<lparr>low = max 0 (min 127 l), high = max 0 (min 127 h)\<rparr>
           | _ \<Rightarrow> None),
          (case coerce_int B (dget t (ustr ''transpose'')) of Some tz \<Rightarrow> tz | None \<Rightarrow> 0))"
proof -
  have "t \<noteq> []" using find_target_some [OF assms(3)] by (auto simp add: has_key_def)
  then show ?thesis using assms by (simp add: decode_layer_def ebind_def)
qed

text \<open>
  Whenever the \<open>try\<close> block ends with a key range or a transpose, the payload decoded
  to a dict whose \<open>$objects\<close> is a list holding a dict with both note attributes.
\<close>

lemma decode_layer_assigns:
  assumes "decode_layer B blob = Inr r" and "r \<noteq> (None, 0)"
  shows "\<exists>a os t. plist_loads B blob = Inr (PDict a)
     \<and> map_of a (ustr ''$objects'') = Some (PList os) \<and> PDict t \<in> set os
     \<and> has_key t (ustr ''lowNote'') \<and> has_key t (ustr ''highNote'')"
proof -
  obtain a where a: "plist_loads B blob = Inr (PDict a)"
    using assms(1)
    by (cases "plist_loads B blob") (auto simp add: decode_layer_def ebind_def split: pval.splits)
  define v where "v = (case map_of a (ustr ''$objects'') of Some v \<Rightarrow> v | None \<Rightarrow> PList [])"
  obtain os where os: "py_iter v = Inr os"
    using assms(1) a by (cases "py_iter v") (auto simp add: decode_layer_def ebind_def v_def)
  obtain t where t: "find_target os = Some t"
    using assms a os by (cases "find_target os") (auto simp add: decode_layer_def ebind_def v_def)
  have el: "PDict t \<in> set os" "has_key t (ustr ''lowNote'')" "has_key t (ustr ''highNote'')"
    using find_target_some [OF t] by simp_all
  have "v = PList os" using os el(1) by (rule py_iter_dict_element)
  then have "map_of a (ustr ''$objects'') = Some (PList os)"
    using el(1) by (cases "map_of a (ustr ''$objects'')") (auto simp add: v_def)
  then show ?thesis using a el by blast
qed

text \<open>
  C5. Every \<open>KeyRange\<close> built by \<open>infer_key_range\<close> or by the legacy decode has both
  bounds in 0..127. The bounds are clamped one by one and nothing is rejected,
  whatever the size and order of the raw values: \<open>infer_key_range\<close> returns the clamps
  of the first of its pairs of keys that both hold integers, and the legacy decode
  returns the clamps of the two notes of its target when both are integers.
\<close>

theorem key_ranges_clamped:
  "(infer_key_range B raw_strip = Inr (Some kr) \<longrightarrow> in_midi_range kr)
   \<and> (parse_legacy_channel B ch sp = Inr (Some cs) \<and> key_range cs = Some kr'
        \<longrightarrow> in_midi_range kr')
   \<and> (key_range_aliases = ps @ (lk, hk) # qs
        \<and> (\<forall>(a, b)\<in>set ps. coerce_int B (dget d a) = None \<or> coerce_int B (dget d b) = None)
        \<and> coerce_int B (dget d lk) = Some l \<and> coerce_int B (dget d hk) = Some h
      \<longrightarrow> infer_key_range B (PDict d)
          = Inr (Some \<lparr>low = max 0 (min 127 l), high = max 0 (min 127 h)\<rparr>))
   \<and> (dget c (ustr ''layer'') = PBytes blob \<and> plist_loads B blob = Inr (PDict arch)
        \<and> map_of arch (ustr ''$objects'') = Some (PList os) \<and> find_target os = Some t
        \<and> coerce_int B (dget t (ustr ''lowNote'')) = Some l'
        \<and> coerce_int B (dget t (ustr ''highNote'')) = Some h'
      \<longrightarrow> (\<exists>cs'. parse_legacy_channel B (PDict c) sp' = Inr (Some cs')
             \<and> key_range cs' = Some \<lparr>low = max 0 (min 127 l'), high = max 0 (min 127 h')\<rparr>))"
proof (intro conjI impI)
  show "in_midi_range kr" if "infer_key_range B raw_strip = Inr (Some kr)"
    using that by (rule infer_key_range_in_range)
  show "in_midi_range kr'"
    if "parse_legacy_channel B ch sp = Inr (Some cs) \<and> key_range cs = Some kr'"
    using that parse_legacy_channel_in_range by blast
  show "infer_key_range B (PDict d)
      = Inr (Some \<lparr>low = max 0 (min 127 l), high = max 0 (min 127 h)\<rparr>)"
    if "key_range_aliases = ps @ (lk, hk) # qs
        \<and> (\<forall>(a, b)\<in>set ps. coerce_int B (dget d a) = None \<or> coerce_int B (dget d b) = None)
        \<and> coerce_int B (dget d lk) = Some l \<and> coerce_int B (dget d hk) = Some h"
    using that key_range_of_first [of ps B d lk l hk h qs]
    by (simp add: infer_key_range_aliases)
  show "\<exists>cs'. parse_legacy_channel B (PDict c) sp' = Inr (Some cs')
      \<and> key_range cs' = Some \<lparr>low = max 0 (min 127 l'), high = max 0 (min 127 h')\<rparr>"
    if "dget c (ustr ''layer'') = PBytes blob \<and> plist_loads B blob = Inr (PDict arch)
        \<and> map_of arch (ustr ''$objects'') = Some (PList os) \<and> find_target os = Some t
        \<and> coerce_int B (dget t (ustr ''lowNote'')) = Some l'
        \<and> coerce_int B (dget t (ustr ''highNote'')) = Some h'"
    using that decode_layer_target [of B blob arch os t]
    by (simp add: parse_legacy_channel_def Let_def)
qed

lemmas eval_strings = ustr_def normalize_name_def em_dash_def split_def strip_def isspace_def
lemmas eval_dict = dget_def por_def has_key_def Let_def ebind_def

lemma wide_strip_range:
  "infer_key_range archive_builtins (PDict wide_strip) = Inr (Some \<lparr>low = 127, high = 0\<rparr>)"
  by (simp add: infer_key_range_def wide_strip_def eval_dict ustr_def)

lemma legacy_channel_decoded:
  "parse_legacy_channel archive_builtins legacy_channel None
   = Inr (Some (legacy_strip (Some \<lparr>low = 127, high = 0\<rparr>) 12))"
  by (simp add: parse_legacy_channel_def legacy_channel_def legacy_channel_dict_def
      decode_layer_def archive_builtins_def layer_archive_def legacy_strip_def eval_dict
      eval_strings)


lemma legacy_channel_array_root:
  "parse_legacy_channel array_builtins legacy_channel None = Inr (Some (legacy_strip None 0))"
  by (simp add: parse_legacy_channel_def legacy_channel_def legacy_channel_dict_def
      decode_layer_def array_builtins_def ascii_builtins_def legacy_strip_def eval_dict
      eval_strings)

text \<open>
  The second pair of keys, with low 200 and high -5, gives the range (127, 0); so do
  the notes 130 and -3 of an archive.
\<close>

theorem key_ranges_clamped_example:
  "infer_key_range archive_builtins (PDict wide_strip) = Inr (Some \<lparr>low = 127, high = 0\<rparr>)
   \<and> parse_legacy_channel archive_builtins legacy_channel None
       = Inr (Some (legacy_strip (Some \<lparr>low = 127, high = 0\<rparr>) 12))
   \<and> in_midi_range \<lparr>low = 127, high = 0\<rparr>
   \<and> key_range_aliases
       = [(ustr ''keyRangeLow'', ustr ''keyRangeHigh'')] @ (ustr ''keyLow'', ustr ''keyHigh'')
           # [(ustr ''noteLow'', ustr ''noteHigh''), (ustr ''lowKey'', ustr ''highKey'')]
   \<and> coerce_int archive_builtins (dget wide_strip (ustr ''keyRangeLow'')) = None
   \<and> coerce_int archive_builtins (dget wide_strip (ustr ''keyLow'')) = Some 200
   \<and> coerce_int archive_builtins (dget wide_strip (ustr ''keyHigh'')) = Some (- 5)
   \<and> find_target [PStr (ustr ''$null''),
         PDict [(ustr ''lowNote'', PInt 130), (ustr ''highNote'', PInt (- 3)),
                (ustr ''transpose'', PInt 12)]]
       = Some [(ustr ''lowNote'', PInt 130), (ustr ''highNote'', PInt (- 3)),
               (ustr ''transpose'', PInt 12)]"
proof -
  let ?t = "[(ustr ''lowNote'', PInt 130), (ustr ''highNote'', PInt (- 3)),
             (ustr ''transpose'', PInt 12)]"
  let ?os = "[PStr (ustr ''$null''), PDict ?t]"
  let ?arch = "[(ustr ''$objects'', PList ?os)]"
  have al: "key_range_aliases
       = [(ustr ''keyRangeLow'', ustr ''keyRangeHigh'')] @ (ustr ''keyLow'', ustr ''keyHigh'')
           # [(ustr ''noteLow'', ustr ''noteHigh''), (ustr ''lowKey'', ustr ''highKey'')]"
    by (simp add: key_range_aliases_def)
  have w: "coerce_int archive_builtins (dget wide_strip (ustr ''keyRangeLow'')) = None"
    "coerce_int archive_builtins (dget wide_strip (ustr ''keyLow'')) = Some 200"
    "coerce_int archive_builtins (dget wide_strip (ustr ''keyHigh'')) = Some (- 5)"
    by (simp_all add: wide_strip_def dget_def ustr_def)
  have lay: "dget legacy_channel_dict (ustr ''layer'') = PBytes [98, 112]"
    by (simp add: legacy_channel_dict_def dget_def ustr_def)
  have ld: "plist_loads archive_builtins [98, 112] = Inr (PDict ?arch)"
    by (simp add: archive_builtins_def layer_archive_def)
  have ob: "map_of ?arch (ustr ''$objects'') = Some (PList ?os)" by simp
  have ft: "find_target ?os = Some ?t" by (simp add: has_key_def ustr_def)
  have nt: "coerce_int archive_builtins (dget ?t (ustr ''lowNote'')) = Some 130"
    "coerce_int archive_builtins (dget ?t (ustr ''highNote'')) = Some (- 3)"
    by (simp_all add: dget_def ustr_def)
  show ?thesis
    using key_ranges_clamped [of archive_builtins "PDict wide_strip" "\<lparr>low = 127, high = 0\<rparr>"
        legacy_channel None "legacy_strip (Some \<lparr>low = 127, high = 0\<rparr>) 12"
        "\<lparr>low = 127, high = 0\<rparr>" "[(ustr ''keyRangeLow'', ustr ''keyRangeHigh'')]"
        "ustr ''keyLow''" "ustr ''keyHigh''"
        "[(ustr ''noteLow'', ustr ''noteHigh''), (ustr ''lowKey'', ustr ''highKey'')]"
        wide_strip 200 "- 5" legacy_channel_dict "[98, 112]" ?arch ?os ?t 130 "- 3" None]
      wide_strip_range legacy_channel_decoded al w lay ld ob ft nt
    by simp
qed

text \<open>
  C8. For a legacy channel dict whose \<open>layer\<close> payload fails to decode, whatever the
  failure, \<open>parse_legacy_channel\<close> raises nothing and returns a strip with no key
  range and transpose 0. The payload fails to decode unless it decodes to a dict
  whose \<open>$objects\<close> is a list holding a dict with both \<open>lowNote\<close> and \<open>highNote\<close>: so
  the bytes may be malformed, the root may be no dict, \<open>$objects\<close> may be absent or
  no list, or no dict of the list may carry both attributes (and the channel may
  have no \<open>layer\<close> bytes at all).
\<close>

theorem legacy_decode_failure:
  assumes "\<forall>blob a os t.
      dget d (ustr ''layer'') = PBytes blob \<and> plist_loads B blob = Inr (PDict a)
      \<and> map_of a (ustr ''$objects'') = Some (PList os) \<and> PDict t \<in> set os
      \<longrightarrow> \<not> (has_key t (ustr ''lowNote'') \<and> has_key t (ustr ''highNote''))"
  shows "\<exists>cs. parse_legacy_channel B (PDict d) sp = Inr (Some cs)
           \<and> key_range cs = None \<and> transpose cs = 0"
proof (cases "dget d (ustr ''layer'')")
  case (PBytes blob)
  have "decode_layer B blob = Inr (None, 0) \<or> (\<exists>e. decode_layer B blob = Inl e)"
  proof (cases "decode_layer B blob")
    case (Inl e)
    then show ?thesis by simp
  next
    case (Inr r)
    have "r = (None, 0)"
    proof (rule ccontr)
      assume "r \<noteq> (None, 0)"
      then show False using decode_layer_assigns [OF Inr] assms PBytes by blast
    qed
    then show ?thesis using Inr by simp
  qed
  then show ?thesis using PBytes by (auto simp add: parse_legacy_channel_def Let_def)
qed (simp_all add: parse_legacy_channel_def Let_def)

text \<open>
  A payload that decodes to an array: the decoder raises \<open>AttributeError\<close> and the
  strip has the defaults.
\<close>

theorem legacy_decode_failure_example:
  "plist_loads array_builtins [98, 112]
     = Inr (PList [PDict [(ustr ''lowNote'', PInt 36), (ustr ''highNote'', PInt 72)]])
   \<and> decode_layer array_builtins [98, 112] = Inl AttributeError
   \<and> (\<exists>cs. parse_legacy_channel array_builtins legacy_channel None = Inr (Some cs)
           \<and> key_range cs = None \<and> transpose cs = 0)"
proof -
  have a: "plist_loads array_builtins blob
     = Inr (PList [PDict [(ustr ''lowNote'', PInt 36), (ustr ''highNote'', PInt 72)]])" for blob
    by (simp add: array_builtins_def)
  have b: "decode_layer array_builtins [98, 112] = Inl AttributeError"
    by (simp add: decode_layer_def ebind_def a)
  show ?thesis
    using legacy_decode_failure [of legacy_channel_dict array_builtins None] a b
    by (simp add: legacy_channel_def)
qed



section \<open>Classification of nodes\<close>

lemmas eval_node = classify_node_def node_class_def node_name_def startswith_def
  ascii_builtins_def ascii_lower_def

text \<open>
  C3 as stated fails: a node whose class string contains \<open>patch\<close> and whose name
  begins with \<open>Set\<close> is classified \<open>set\<close>, because the name test shares the first
  condition with the class test for \<open>set\<close>.
\<close>

theorem patch_class_classified_as_set:
  "node_class ascii_builtins set_named_patch = Inr (ustr ''Patch'')
   \<and> contains (ustr ''patch'') (str_lower ascii_builtins (ustr ''Patch''))
   \<and> classify_node ascii_builtins set_named_patch = Inr (ustr ''set'')
   \<and> ustr ''set'' \<noteq> ustr ''patch''"
  by (simp add: set_named_patch_def eval_node eval_dict ustr_def)

text \<open>
  C3, amended. For a node whose name is text or absent, \<open>classify_node\<close> answers
  \<open>set\<close> when the lower-cased class string contains \<open>set\<close> or the lower-cased name
  begins with \<open>set \<close>; otherwise \<open>patch\<close> when the class string contains \<open>patch\<close>;
  otherwise \<open>set\<close> when \<open>children\<close> or \<open>_children\<close> holds a list; otherwise
  \<open>unknown\<close>. So a class string that contains \<open>patch\<close> and not \<open>set\<close> gives \<open>patch\<close>
  whatever the children are, provided the name does not begin with \<open>set \<close>.
\<close>

theorem classify_node_order:
  assumes "node_class B (PDict d) = Inr c"
    and "por (dget d (ustr ''name'')) (por (dget d (ustr ''Name'')) (PStr [])) = PStr n"
  shows "classify_node B (PDict d) =
     Inr (if contains (ustr ''set'') (str_lower B c)
             \<or> startswith (str_lower B n) (ustr ''set '') then ustr ''set''
          else if contains (ustr ''patch'') (str_lower B c) then ustr ''patch''
          else if is_list (por (dget d (ustr ''children'')) (dget d (ustr ''_children'')))
            then ustr ''set''
          else ustr ''unknown'')"
  using assms by (simp add: classify_node_def ebind_def Let_def)

text \<open>Class \<open>MSPatch\<close>, name \<open>Lead\<close> and a children list: the class decides.\<close>

theorem classify_node_order_example:
  "node_class ascii_builtins lead_patch = Inr (ustr ''MSPatch'')
   \<and> classify_node ascii_builtins lead_patch = Inr (ustr ''patch'')"
proof -
  have a: "node_class ascii_builtins
      (PDict [(ustr ''class'', PStr (ustr ''MSPatch'')), (ustr ''name'', PStr (ustr ''Lead'')),
            (ustr ''children'', PList [])]) = Inr (ustr ''MSPatch'')"
    by (simp add: eval_node eval_dict ustr_def)
  have b: "por (dget [(ustr ''class'', PStr (ustr ''MSPatch'')), (ustr ''name'', PStr (ustr ''Lead'')),
            (ustr ''children'', PList [])] (ustr ''name''))
        (por (dget [(ustr ''class'', PStr (ustr ''MSPatch'')), (ustr ''name'', PStr (ustr ''Lead'')),
            (ustr ''children'', PList [])] (ustr ''Name'')) (PStr [])) = PStr (ustr ''Lead'')"
    by (simp add: eval_dict ustr_def)
  show ?thesis
    using classify_node_order [OF a b] a
    by (simp add: lead_patch_def ascii_builtins_def ascii_lower_def startswith_def ustr_def)
qed

section \<open>Where the walker raises, and the empty patch name\<close>

lemmas eval_walker = extract_sets_and_patches_def sets_of_child_def extract_patch_def
  extract_channel_strips_def parse_channel_strip_def infer_bpm_from_node_def default_set_def

text \<open>
  C1. The claim is that no extraction step raises on any decoded document. On
  \<open>strings_document\<close>, \<open>parse_channel_strip\<close> is called on a string, whose \<open>get\<close>
  lookup raises \<open>AttributeError\<close>, and nothing on the way up catches it.
\<close>

theorem extraction_raises_on_string_strip:
  "extract_sets_and_patches ascii_builtins strings_document = Inl AttributeError"
  by (simp add: strings_document_def eval_walker eval_node eval_dict eval_strings)

text \<open>
  C7. The claim is that the name of an extracted patch is never empty. A name of one
  space counts as true, so the placeholder is not taken, and it normalizes to the empty
  string.
\<close>

theorem blank_name_gives_empty_patch_name:
  "extract_patch ascii_builtins blank_patch =
     Inr \<lparr>patch_name = [], channel_strips = [],
          patch_attributes = [(ustr ''_sourceClass'', PStr (ustr ''Patch''))]\<rparr>"
  by (simp add: blank_patch_def eval_walker eval_node eval_dict eval_strings)

section \<open>Name normalization is idempotent\<close>

text \<open>What \<open>replace\<close> leaves in a string, and when it changes nothing.\<close>

lemma set_replace: "old \<noteq> [] \<Longrightarrow> set (replace old new s) \<subseteq> set s \<union> set new"
proof (induction old new s rule: replace.induct)
  case (1 old new)
  then show ?case by simp
next
  case (2 old new c cs)
  show ?case
  proof (cases "take (length old) (c # cs) = old")
    case True
    have "set (drop (length old) (c # cs)) \<subseteq> set (c # cs)" by (rule set_drop_subset)
    then show ?thesis using 2 True by auto
  next
    case False
    then show ?thesis using 2 by auto
  qed
qed

lemma isspace_32: "isspace 32"
  by (simp add: isspace_def)

lemma replace_char_gone: "c \<notin> set new \<Longrightarrow> c \<notin> set (replace [c] new s)"
  by (induction s) auto

lemma replace_absent:
  assumes "old \<noteq> []" and "\<And>t. P t \<Longrightarrow> take (length old) t \<noteq> old"
    and "\<And>c t. P (c # t) \<Longrightarrow> P t"
  shows "P s \<Longrightarrow> replace old new s = s"
proof (induction s)
  case Nil
  then show ?case using assms(1) by simp
next
  case (Cons c s)
  have "take (length old) (c # s) \<noteq> old" using assms(2) Cons.prems by blast
  moreover have "replace old new s = s" using Cons assms(3) by blast
  ultimately show ?case using assms(1) by simp
qed

text \<open>
  The scanner behind \<open>split()\<close>: its tokens are non-empty, free of whitespace and made
  of characters of the input; on single-spaced tokens it undoes \<open>join\<close>.
\<close>

lemma split_from_append:
  "\<forall>c\<in>set w. \<not> isspace c \<Longrightarrow> split_from cur (w @ s) = split_from (cur @ w) s"
  by (induction w arbitrary: cur) auto

lemma split_from_tokens:
  "\<forall>c\<in>set cur. \<not> isspace c \<Longrightarrow> w \<in> set (split_from cur s)
   \<Longrightarrow> w \<noteq> [] \<and> (\<forall>c\<in>set w. \<not> isspace c) \<and> set w \<subseteq> set cur \<union> set s"
proof (induction s arbitrary: cur)
  case Nil
  have "cur \<noteq> []" using Nil.prems(2) by (cases "cur = []") simp_all
  then have "w = cur" using Nil.prems(2) by simp
  then show ?case using \<open>cur \<noteq> []\<close> Nil.prems(1) by simp
next
  case (Cons a s)
  show ?case
  proof (cases "isspace a")
    case sp: True
    have rest: "w \<in> set (split_from [] s) \<Longrightarrow> ?thesis"
    proof -
      assume "w \<in> set (split_from [] s)"
      then have "w \<noteq> [] \<and> (\<forall>c\<in>set w. \<not> isspace c) \<and> set w \<subseteq> set [] \<union> set s"
        using Cons.IH [of "[]"] by simp
      then show ?thesis by auto
    qed
    show ?thesis
    proof (cases "cur = []")
      case True
      then have "w \<in> set (split_from [] s)" using Cons.prems(2) sp by simp
      then show ?thesis by (rule rest)
    next
      case False
      then have "w = cur \<or> w \<in> set (split_from [] s)" using Cons.prems(2) sp by simp
      then show ?thesis
      proof
        assume "w = cur"
        then show ?thesis using False Cons.prems(1) by auto
      next
        assume "w \<in> set (split_from [] s)"
        then show ?thesis by (rule rest)
      qed
    qed
  next
    case False
    then have "w \<in> set (split_from (cur @ [a]) s)" using Cons.prems(2) by simp
    moreover have "\<forall>c\<in>set (cur @ [a]). \<not> isspace c" using Cons.prems(1) False by simp
    ultimately have "w \<noteq> [] \<and> (\<forall>c\<in>set w. \<not> isspace c)
        \<and> set w \<subseteq> set (cur @ [a]) \<union> set s"
      by (rule Cons.IH [rotated])
    then show ?thesis by auto
  qed
qed

lemma split_join:
  "\<forall>w\<in>set ws. w \<noteq> [] \<and> (\<forall>c\<in>set w. \<not> isspace c) \<Longrightarrow> split_from [] (join [32] ws) = ws"
proof (induction ws rule: induct_list012)
  case 1
  show ?case by simp
next
  case (2 x)
  have "split_from [] (x @ []) = split_from ([] @ x) []"
    using 2 by (intro split_from_append) simp
  then show ?case using 2 by simp
next
  case (3 x y zs)
  have "split_from [] (x @ (32 # join [32] (y # zs))) = split_from ([] @ x) (32 # join [32] (y # zs))"
    using 3(3) by (intro split_from_append) simp
  moreover have "split_from [] (join [32] (y # zs)) = y # zs" using 3 by simp
  ultimately show ?case using 3(3) isspace_32 by simp
qed

lemma join_ends:
  "\<forall>w\<in>set ws. w \<noteq> [] \<and> (\<forall>c\<in>set w. \<not> isspace c) \<Longrightarrow> ws \<noteq> []
   \<Longrightarrow> join [32] ws \<noteq> [] \<and> \<not> isspace (hd (join [32] ws)) \<and> \<not> isspace (last (join [32] ws))"
proof (induction ws rule: induct_list012)
  case 1
  then show ?case by simp
next
  case (2 x)
  then show ?case by simp
next
  case (3 x y zs)
  have "join [32] (y # zs) \<noteq> [] \<and> \<not> isspace (last (join [32] (y # zs)))" using 3 by simp
  moreover have "x \<noteq> [] \<and> \<not> isspace (hd x)" using 3(3) by simp
  ultimately show ?case by simp
qed

lemma strip_id: "s = [] \<or> (\<not> isspace (hd s) \<and> \<not> isspace (last s)) \<Longrightarrow> strip s = s"
proof (cases "s = []")
  case True
  then show ?thesis by (simp add: strip_def)
next
  case False
  assume "s = [] \<or> (\<not> isspace (hd s) \<and> \<not> isspace (last s))"
  then have e: "\<not> isspace (hd s)" "\<not> isspace (last s)" using False by simp_all
  have "dropWhile isspace s = s" using e(1) by (simp add: dropWhile_eq_self_iff)
  moreover have "dropWhile isspace (rev s) = rev s"
    using e(2) False by (simp add: dropWhile_eq_self_iff hd_rev)
  ultimately show ?thesis by (simp add: strip_def)
qed

lemma no_space_pair_append:
  "\<forall>c\<in>set w. \<not> isspace c \<Longrightarrow> no_space_pair (w @ s) = no_space_pair s"
proof (induction w)
  case Nil
  show ?case by simp
next
  case (Cons a w)
  then have ih: "no_space_pair (w @ s) = no_space_pair s" and a: "\<not> isspace a" by simp_all
  show ?case
  proof (cases "w @ s")
    case Nil
    then show ?thesis by simp
  next
    case (Cons b t)
    then show ?thesis using ih a by simp
  qed
qed

lemma no_space_pair_space:
  "no_space_pair (32 # s) = ((s = [] \<or> \<not> isspace (hd s)) \<and> no_space_pair s)"
  by (cases s) (simp_all add: isspace_32)

lemma no_space_pair_join:
  "\<forall>w\<in>set ws. w \<noteq> [] \<and> (\<forall>c\<in>set w. \<not> isspace c) \<Longrightarrow> no_space_pair (join [32] ws)"
proof (induction ws rule: induct_list012)
  case 1
  show ?case by simp
next
  case (2 x)
  have "no_space_pair (x @ []) = no_space_pair []" using 2 by (intro no_space_pair_append) simp
  then show ?case by simp
next
  case (3 x y zs)
  have "no_space_pair (x @ (32 # join [32] (y # zs))) = no_space_pair (32 # join [32] (y # zs))"
    using 3(3) by (intro no_space_pair_append) simp
  moreover have "\<not> isspace (hd (join [32] (y # zs)))" using join_ends [of "y # zs"] 3(3) by simp
  moreover have "no_space_pair (join [32] (y # zs))" using 3 by simp
  ultimately show ?case by (simp add: no_space_pair_space)
qed

lemma set_join: "set (join sep ws) \<subseteq> set sep \<union> \<Union> (set ` set ws)"
  by (induction ws rule: induct_list012) auto

lemma no_space_pair_tail: "no_space_pair (c # t) \<Longrightarrow> no_space_pair t"
  by (cases t) simp_all

lemma no_space_pair_pattern:
  assumes "no_space_pair t"
  shows "take 4 t \<noteq> [32, 8212, 32, 32]" and "take 4 t \<noteq> [32, 32, 8212, 32]"
proof -
  have a: "\<not> no_space_pair ([32, 8212, 32, 32] @ r)" for r
    by (cases r) (simp_all add: isspace_def)
  have b: "\<not> no_space_pair ([32, 32, 8212, 32] @ r)" for r
    by (simp add: isspace_def)
  show "take 4 t \<noteq> [32, 8212, 32, 32]"
  proof
    assume "take 4 t = [32, 8212, 32, 32]"
    then have "t = [32, 8212, 32, 32] @ drop 4 t" by (metis append_take_drop_id)
    then show False using a [of "drop 4 t"] assms by simp
  qed
  show "take 4 t \<noteq> [32, 32, 8212, 32]"
  proof
    assume "take 4 t = [32, 32, 8212, 32]"
    then have "t = [32, 32, 8212, 32] @ drop 4 t" by (metis append_take_drop_id)
    then show False using b [of "drop 4 t"] assms by simp
  qed
qed

text \<open>
  A normalized name is a list of whitespace-free tokens joined by single spaces, with
  no slash and no backslash; on such a string every step of \<open>normalize_name\<close> is the
  identity.
\<close>

lemma normalize_name_str:
  "normalize_name (PStr n) =
     strip (join [32] (split_from []
       (replace [32, 32, 8212, 32] [32, 8212, 32]
         (replace [32, 8212, 32, 32] [32, 8212, 32]
           (replace [47] [32, 8212, 32] (replace [92] [32, 8212, 32] n))))))"
  by (simp add: normalize_name_def Let_def ustr_def em_dash_def split_def)

lemma replace_char_absent: "c \<notin> set s \<Longrightarrow> replace [c] new s = s"
  by (induction s) auto

lemma replace_pattern_absent:
  assumes "no_space_pair s" and "p = [32, 8212, 32, 32] \<or> p = [32, 32, 8212, 32]"
  shows "replace p new s = s"
proof (rule replace_absent [where P = no_space_pair])
  show "p \<noteq> []" using assms(2) by auto
  show "no_space_pair s" by (rule assms(1))
  show "no_space_pair t" if "no_space_pair (c # t)" for c t
    using that by (rule no_space_pair_tail)
  show "take (length p) t \<noteq> p" if "no_space_pair t" for t
  proof -
    have l: "length p = 4" using assms(2) by auto
    show ?thesis unfolding l using no_space_pair_pattern [OF that] assms(2) by blast
  qed
qed

lemma strip_join:
  assumes "\<forall>w\<in>set ws. w \<noteq> [] \<and> (\<forall>c\<in>set w. \<not> isspace c)"
  shows "strip (join [32] ws) = join [32] ws"
proof (cases "ws = []")
  case True
  then show ?thesis by (simp add: strip_def)
next
  case False
  then show ?thesis using join_ends [OF assms] by (intro strip_id) simp
qed

lemma normalize_name_fixed:
  assumes tok: "\<forall>w\<in>set ws. w \<noteq> [] \<and> (\<forall>c\<in>set w. \<not> isspace c)"
    and "47 \<notin> set (join [32] ws)" and "92 \<notin> set (join [32] ws)"
  shows "normalize_name (PStr (join [32] ws)) = join [32] ws"
proof -
  let ?r = "join [32] ws"
  have 1: "replace [92] [32, 8212, 32] ?r = ?r" using assms(3) by (rule replace_char_absent)
  have 2: "replace [47] [32, 8212, 32] ?r = ?r" using assms(2) by (rule replace_char_absent)
  have nsp: "no_space_pair ?r" using tok by (rule no_space_pair_join)
  have 3: "replace [32, 8212, 32, 32] [32, 8212, 32] ?r = ?r"
    using nsp by (rule replace_pattern_absent) simp
  have 4: "replace [32, 32, 8212, 32] [32, 8212, 32] ?r = ?r"
    using nsp by (rule replace_pattern_absent) simp
  have 5: "split_from [] ?r = ws" using tok by (rule split_join)
  show ?thesis
    unfolding normalize_name_str 1 2 3 4 5 using tok by (rule strip_join)
qed

lemma normalize_name_form:
  "\<exists>ws. (\<forall>w\<in>set ws. w \<noteq> [] \<and> (\<forall>c\<in>set w. \<not> isspace c))
     \<and> normalize_name v = join [32] ws
     \<and> 47 \<notin> set (join [32] ws) \<and> 92 \<notin> set (join [32] ws)"
proof (cases v)
  case (PStr n)
  define s1 where "s1 = replace [92] [32, 8212, 32] n"
  define s2 where "s2 = replace [47] [32, 8212, 32] s1"
  define s3 where "s3 = replace [32, 8212, 32, 32] [32, 8212, 32] s2"
  define s4 where "s4 = replace [32, 32, 8212, 32] [32, 8212, 32] s3"
  define ws where "ws = split_from [] s4"
  have a1: "92 \<notin> set s1" unfolding s1_def by (rule replace_char_gone) simp
  have "set s2 \<subseteq> set s1 \<union> set [32, 8212, 32]" unfolding s2_def by (rule set_replace) simp
  then have a2: "92 \<notin> set s2" using a1 by auto
  have b2: "47 \<notin> set s2" unfolding s2_def by (rule replace_char_gone) simp
  have "set s3 \<subseteq> set s2 \<union> set [32, 8212, 32]" unfolding s3_def by (rule set_replace) simp
  then have a3: "92 \<notin> set s3" and b3: "47 \<notin> set s3" using a2 b2 by auto
  have "set s4 \<subseteq> set s3 \<union> set [32, 8212, 32]" unfolding s4_def by (rule set_replace) simp
  then have s4: "47 \<notin> set s4" "92 \<notin> set s4" using a3 b3 by auto
  have tok: "w \<noteq> [] \<and> (\<forall>c\<in>set w. \<not> isspace c) \<and> set w \<subseteq> set s4" if "w \<in> set ws" for w
    using split_from_tokens [of "[]" w s4] that by (simp add: ws_def)
  then have tok': "\<forall>w\<in>set ws. w \<noteq> [] \<and> (\<forall>c\<in>set w. \<not> isspace c)" by blast
  have "set (join [32] ws) \<subseteq> set [32] \<union> \<Union> (set ` set ws)" by (rule set_join)
  then have "set (join [32] ws) \<subseteq> insert 32 (set s4)" using tok by auto
  then have chars: "47 \<notin> set (join [32] ws)" "92 \<notin> set (join [32] ws)" using s4 by auto
  have "normalize_name v = strip (join [32] ws)"
    unfolding PStr normalize_name_str ws_def s4_def s3_def s2_def s1_def ..
  then have "normalize_name v = join [32] ws" using strip_join [OF tok'] by simp
  then show ?thesis using tok' chars by blast
qed (rule exI [of _ "[]"], simp add: normalize_name_def)+

text \<open>
  C9. \<open>normalize_name\<close> is idempotent: normalizing the result of \<open>normalize_name\<close>
  gives it back unchanged, for a string argument and for any other value (whose
  normalized name is the empty string).
\<close>

theorem normalize_name_idempotent:
  "normalize_name (PStr (normalize_name v)) = normalize_name v"
proof -
  obtain ws where "\<forall>w\<in>set ws. w \<noteq> [] \<and> (\<forall>c\<in>set w. \<not> isspace c)"
    and "normalize_name v = join [32] ws"
    and "47 \<notin> set (join [32] ws)" and "92 \<notin> set (join [32] ws)"
    using normalize_name_form by blast
  then show ?thesis using normalize_name_fixed [of ws] by simp
qed

end
